theory Spec2Isabelle
  imports Main
begin

section \<open>Swap state hooks of the AnimeSwap front end (src/state/swap/hooks.tsx)\<close>

text \<open>
  The module is a TypeScript file of React hooks. Its pure parts are embedded here as HOL
  functions: the parser of URL query parameters (\<open>queryParametersToSwapState\<close> and
  its helpers), the computation of the blocking input error inside
  \<open>useDerivedSwapInfo\<close>, and the action handler \<open>onSwitchTokens\<close>.

  Strings are \<open>char list\<close>s, so a character is one of the 256 values of \<open>char\<close>;
  JavaScript's UTF-16 code units above 255 are outside the model.
\<close>

subsection \<open>JavaScript values and built-ins used by the module\<close>

text \<open>
  A value of a parsed query string (\<open>ParsedQs[string]\<close> of the package qs) is
  \<open>undefined\<close>, a string, an array or a nested object. \<open>JNull\<close> is the value
  \<open>null\<close>, which the module itself produces for an unset recipient.
\<close>

datatype jsval =
    JUndefined
  | JNull
  | JString string
  | JArray "jsval list"
  | JObject "(string \<times> jsval) list"

text \<open>A parsed query object: reading a key that is absent gives \<open>undefined\<close>.\<close>

type_synonym ParsedQs = "string \<Rightarrow> jsval"

text \<open>The only exception the module can meet is the \<open>TypeError\<close> of a property read or a
  method call on a value that has no such property.\<close>

datatype error = TypeError

text \<open>The operator \<open>typeof\<close>.\<close>

fun typeof :: "jsval \<Rightarrow> string" where
  "typeof JUndefined = ''undefined''"
| "typeof JNull = ''object''"
| "typeof (JString s) = ''string''"
| "typeof (JArray xs) = ''object''"
| "typeof (JObject kvs) = ''object''"

text \<open>
  \<open>String.prototype.toLowerCase\<close> on one character: the letters A to Z, and the Latin-1
  capitals (192 to 222 without the multiplication sign 215), move up by 32.
\<close>

definition toLowerChar :: "char \<Rightarrow> char" where
  "toLowerChar c =
     (let n = (of_char c :: nat)
      in if (65 \<le> n \<and> n \<le> 90) \<or> (192 \<le> n \<and> n \<le> 222 \<and> n \<noteq> 215)
         then char_of (n + 32) else c)"

text \<open>
  The method call \<open>v.toLowerCase()\<close>: for \<open>undefined\<close> and \<open>null\<close> the property read
  throws, for an array or an object the property is \<open>undefined\<close> and the call throws.
\<close>

fun toLowerCase :: "jsval \<Rightarrow> error + string" where
  "toLowerCase (JString s) = Inr (map toLowerChar s)"
| "toLowerCase v = Inl TypeError"

text \<open>Character classes of the regular expressions and of the numeric grammar.\<close>

definition is_digit :: "char \<Rightarrow> bool" where
  "is_digit c = (48 \<le> (of_char c :: nat) \<and> (of_char c :: nat) \<le> 57)"

definition is_upper :: "char \<Rightarrow> bool" where
  "is_upper c = (65 \<le> (of_char c :: nat) \<and> (of_char c :: nat) \<le> 90)"

definition is_lower :: "char \<Rightarrow> bool" where
  "is_lower c = (97 \<le> (of_char c :: nat) \<and> (of_char c :: nat) \<le> 122)"

definition is_alnum :: "char \<Rightarrow> bool" where
  "is_alnum c = (is_lower c \<or> is_upper c \<or> is_digit c)"

text \<open>
  White space and line terminators that \<open>parseFloat\<close> skips at the start of its argument
  (those among the 256 characters): TAB, LF, VT, FF, CR, SP and NBSP.
\<close>

definition is_space :: "char \<Rightarrow> bool" where
  "is_space c = ((of_char c :: nat) \<in> {9, 10, 11, 12, 13, 32, 160})"

text \<open>
  \<open>parseFloat\<close> reads the longest prefix of the trimmed string that is a
  \<open>StrDecimalLiteral\<close> of ECMAScript:
  an optional sign, then \<open>Infinity\<close>, or digits with an optional fraction, or a dot
  with digits, each of the last two with an optional exponent. The result is \<open>NaN\<close>
  exactly when there is no such prefix. The functions below return the prefix.
\<close>

definition ExponentPart :: "string \<Rightarrow> string" where
  "ExponentPart s =
     (case s of
        [] \<Rightarrow> []
      | e # r \<Rightarrow>
          if e = CHR ''e'' \<or> e = CHR ''E'' then
            (case r of
               [] \<Rightarrow> []
             | g # r' \<Rightarrow>
                 if g = CHR ''+'' \<or> g = CHR ''-'' then
                   (if takeWhile is_digit r' = [] then [] else e # g # takeWhile is_digit r')
                 else if takeWhile is_digit r = [] then [] else e # takeWhile is_digit r)
          else [])"

definition StrUnsignedDecimalLiteral :: "string \<Rightarrow> string option" where
  "StrUnsignedDecimalLiteral s =
     (if take 8 s = ''Infinity'' then Some ''Infinity''
      else if takeWhile is_digit s \<noteq> [] then
        (let ds = takeWhile is_digit s; r = dropWhile is_digit s
         in case r of
              [] \<Rightarrow> Some ds
            | d # r' \<Rightarrow>
                if d = CHR ''.'' then
                  Some (ds @ d # takeWhile is_digit r' @ ExponentPart (dropWhile is_digit r'))
                else Some (ds @ ExponentPart r))
      else
        (case s of
           [] \<Rightarrow> None
         | d # r \<Rightarrow>
             if d = CHR ''.'' \<and> takeWhile is_digit r \<noteq> [] then
               Some (d # takeWhile is_digit r @ ExponentPart (dropWhile is_digit r))
             else None))"

definition StrDecimalLiteral :: "string \<Rightarrow> string option" where
  "StrDecimalLiteral s =
     (case s of
        [] \<Rightarrow> None
      | g # r \<Rightarrow>
          if g = CHR ''+'' \<or> g = CHR ''-'' then map_option ((#) g) (StrUnsignedDecimalLiteral r)
          else StrUnsignedDecimalLiteral s)"

text \<open>\<open>isNaN(parseFloat(s))\<close> for a string \<open>s\<close>.\<close>

definition isNaN_parseFloat :: "string \<Rightarrow> bool" where
  "isNaN_parseFloat s = (StrDecimalLiteral (dropWhile is_space s) = None)"

text \<open>
  The operator \<open><\<close> on two strings compares them code unit by code unit; a proper prefix
  is smaller.
\<close>

fun string_less :: "string \<Rightarrow> string \<Rightarrow> bool" where
  "string_less [] [] = False"
| "string_less [] (y # ys) = True"
| "string_less (x # xs) [] = False"
| "string_less (x # xs) (y # ys) =
     ((of_char x :: nat) < of_char y \<or> (x = y \<and> string_less xs ys))"

text \<open>Truthiness of a result of type \<open>string | false\<close> (\<open>None\<close> is \<open>false\<close>): the empty
  string is falsy as well.\<close>

definition truthy :: "string option \<Rightarrow> bool" where
  "truthy r = (case r of None \<Rightarrow> False | Some s \<Rightarrow> s \<noteq> [])"

subsection \<open>The swap state\<close>

datatype Field = INPUT | OUTPUT

record CurrencySelection =
  currencyId :: "string option"

record SwapState =
  field_INPUT :: CurrencySelection
  field_OUTPUT :: CurrencySelection
  typedValue :: string
  independentField :: Field
  recipient :: "string option"

text \<open>
  Modelled from the spec: the declaration of \<open>Coin\<close> (module hooks/common/Coin) is
  missing; the spec names an asset descriptor with address, symbol and decimals.
\<close>

record Coin =
  address :: string
  symbol :: string
  decimals :: nat

subsection \<open>Parsing the URL query parameters\<close>

text \<open>
  \<open>isAddress\<close> is imported from the module utils and is not defined in this module; it
  is a parameter of every function that calls it. Its callers use the result as
  \<open>string | false\<close>: \<open>None\<close> stands for \<open>false\<close>.
\<close>

type_synonym address_validator = "jsval \<Rightarrow> string option"

definition parseCurrencyFromURLParameter :: "address_validator \<Rightarrow> jsval \<Rightarrow> string" where
  "parseCurrencyFromURLParameter isAddress urlParam =
     (if typeof urlParam = ''string'' then
        (let valid = isAddress urlParam
         in case valid of
              Some a \<Rightarrow> if truthy valid then a else []
            | None \<Rightarrow> [])
      else [])"

text \<open>In the next function the case \<open>JString\<close> is the test
  \<open>typeof urlParam === 'string'\<close>, the string itself being returned.\<close>

definition parseTokenAmountURLParameter :: "jsval \<Rightarrow> string" where
  "parseTokenAmountURLParameter urlParam =
     (case urlParam of
        JString s \<Rightarrow> if \<not> isNaN_parseFloat s then s else []
      | _ \<Rightarrow> [])"

definition parseIndependentFieldURLParameter :: "jsval \<Rightarrow> error + Field" where
  "parseIndependentFieldURLParameter urlParam =
     (if typeof urlParam = ''string'' then
        (case toLowerCase urlParam of
           Inl e \<Rightarrow> Inl e
         | Inr l \<Rightarrow> Inr (if l = ''output'' then OUTPUT else INPUT))
      else Inr INPUT)"

text \<open>
  \<open>ENS_NAME_REGEX\<close>: one to 256 characters of the first class, a dot, one to six
  characters of the second class, a word boundary, and any number of characters of the
  third class up to the end of the string.
\<close>

definition ens_class1 :: "char \<Rightarrow> bool" where
  "ens_class1 c = (is_alnum c \<or> c \<in> set ''-@:%._+~#='')"

definition ens_class2 :: "char \<Rightarrow> bool" where
  "ens_class2 c = (is_alnum c \<or> c \<in> set ''()'')"

definition ens_class3 :: "char \<Rightarrow> bool" where
  "ens_class3 c = (is_alnum c \<or> c \<in> set ''-()@:%_+.~#?&/='')"

definition is_word_char :: "char \<Rightarrow> bool" where
  "is_word_char c = (is_alnum c \<or> c = CHR ''_'')"

text \<open>The assertion \<open>\b\<close> at position \<open>j\<close>: exactly one of the characters before and
  after the position is a word character (outside the string there is none).\<close>

definition word_boundary :: "string \<Rightarrow> nat \<Rightarrow> bool" where
  "word_boundary s j =
     ((0 < j \<and> j \<le> length s \<and> is_word_char (s ! (j - 1)))
      \<noteq> (j < length s \<and> is_word_char (s ! j)))"

definition ENS_NAME_REGEX_test :: "string \<Rightarrow> bool" where
  "ENS_NAME_REGEX_test s =
     list_ex (\<lambda>i.
       list_all ens_class1 (take i s) \<and> i < length s \<and> s ! i = CHR ''.'' \<and>
       list_ex (\<lambda>j.
         list_all ens_class2 (take (j - (i + 1)) (drop (i + 1) s)) \<and>
         word_boundary s j \<and>
         list_all ens_class3 (drop j s))
       [i + 2 ..< Suc (min (i + 7) (length s))])
     [1 ..< Suc (min 256 (length s))]"

text \<open>\<open>ADDRESS_REGEX\<close>: \<open>0x\<close> and exactly forty hexadecimal digits.\<close>

definition is_hex :: "char \<Rightarrow> bool" where
  "is_hex c = (is_digit c \<or> c \<in> set ''abcdefABCDEF'')"

definition ADDRESS_REGEX_test :: "string \<Rightarrow> bool" where
  "ADDRESS_REGEX_test s =
     (take 2 s = ''0x'' \<and> length s = 42 \<and> list_all is_hex (drop 2 s))"

definition validatedRecipient :: "address_validator \<Rightarrow> jsval \<Rightarrow> string option" where
  "validatedRecipient isAddress rcpt =
     (case rcpt of
        JString s \<Rightarrow>
          (let address = isAddress rcpt
           in if truthy address then address
              else if ENS_NAME_REGEX_test s then Some s
              else if ADDRESS_REGEX_test s then Some s
              else None)
      | _ \<Rightarrow> None)"

definition queryParametersToSwapState :: "address_validator \<Rightarrow> ParsedQs \<Rightarrow> error + SwapState" where
  "queryParametersToSwapState isAddress parsedQs =
     (let inputCurrency = parseCurrencyFromURLParameter isAddress (parsedQs ''inputCurrency'');
          outputCurrency = parseCurrencyFromURLParameter isAddress (parsedQs ''outputCurrency'');
          typed = parseTokenAmountURLParameter (parsedQs ''exactAmount'')
      in case parseIndependentFieldURLParameter (parsedQs ''exactField'') of
           Inl e \<Rightarrow> Inl e
         | Inr indep \<Rightarrow>
             (let (inputCurrency, outputCurrency) =
                    (if inputCurrency = [] \<and> outputCurrency = [] \<and> typed = []
                        \<and> indep = INPUT
                     then (''0x1::aptos_coin::AptosCoin'', outputCurrency)
                     else if inputCurrency = outputCurrency then (inputCurrency, [])
                     else (inputCurrency, outputCurrency));
                  rcpt = validatedRecipient isAddress (parsedQs ''recipient'')
              in Inr \<lparr> field_INPUT =
                         \<lparr> currencyId = (if inputCurrency = [] then None else Some inputCurrency) \<rparr>,
                       field_OUTPUT =
                         \<lparr> currencyId = (if outputCurrency = [] then None else Some outputCurrency) \<rparr>,
                       typedValue = typed,
                       independentField = indep,
                       recipient = rcpt \<rparr>))"

subsection \<open>The action handlers\<close>

text \<open>
  The handlers dispatch actions to the store. The action creators are imported from the
  module actions; the reducer that interprets the actions is in the module reducer. Of the
  four handlers, \<open>onSwitchTokens\<close> is embedded: it dispatches \<open>switchCurrencies()\<close>.
\<close>

datatype action =
    selectCurrency Field string
  | switchCurrencies
  | typeInput Field string
  | setRecipient "string option"

text \<open>
  Modelled from the spec: the reducer of the store (module reducer, missing). The spec says
  of the four actions: the selection "sets currencyId for field to the coin's address";
  the switch "swaps INPUT and OUTPUT sides (including which is independent)"; the input
  "sets typedValue and marks field as independent"; the recipient change "sets explicit
  recipient override, or clears it".
\<close>

fun reducer :: "SwapState \<Rightarrow> action \<Rightarrow> SwapState" where
  "reducer st (selectCurrency INPUT a) = st \<lparr> field_INPUT := \<lparr> currencyId = Some a \<rparr> \<rparr>"
| "reducer st (selectCurrency OUTPUT a) = st \<lparr> field_OUTPUT := \<lparr> currencyId = Some a \<rparr> \<rparr>"
| "reducer st switchCurrencies =
     st \<lparr> field_INPUT := field_OUTPUT st,
          field_OUTPUT := field_INPUT st,
          independentField := (if independentField st = INPUT then OUTPUT else INPUT) \<rparr>"
| "reducer st (typeInput f v) = st \<lparr> typedValue := v, independentField := f \<rparr>"
| "reducer st (setRecipient r) = st \<lparr> recipient := r \<rparr>"

text \<open>\<open>dispatch\<close> hands the action to the reducer; the store keeps the state it returns.\<close>

definition dispatch :: "action \<Rightarrow> SwapState \<Rightarrow> SwapState" where
  "dispatch a st = reducer st a"

definition onSwitchTokens :: "SwapState \<Rightarrow> SwapState" where
  "onSwitchTokens st = dispatch switchCurrencies st"

subsection \<open>The derived swap information\<close>

text \<open>
  Modelled from the spec: the declarations of \<open>TradeState\<close>, \<open>TradeType\<close> and
  \<open>Trade\<close> (module hooks/useBestTrade) are missing. The spec names the trade states
  LOADING, NO_ROUTE_FOUND and VALID, and a quote with a \<open>maximumAmountIn\<close>.

  \<open>Decimal\<close> is the number class of the SDK (the class of the package decimal.js); it is
  the type parameter \<open>'d\<close>. A \<open>Decimal\<close> is an object, hence truthy whenever it is
  there; a missing one is \<open>None\<close>. Its method \<open>valueOf\<close> returns the number as a
  string.
\<close>

datatype TradeState = LOADING | NO_ROUTE_FOUND | VALID

datatype TradeType = EXACT_INPUT | EXACT_OUTPUT

record 'd Trade =
  maximumAmountIn :: "'d option"

record 'd TradeResult =
  state :: TradeState
  trade :: "'d Trade option"

text \<open>The messages of the input error; the balance message carries the coin's symbol.\<close>

datatype message =
    Connect_Wallet
  | Select_a_coin
  | Enter_an_amount
  | Enter_a_recipient
  | Insufficient_balance string
  | No_route_found

text \<open>The operator \<open>??\<close> with a message on its right.\<close>

definition nullish :: "'a option \<Rightarrow> 'a \<Rightarrow> 'a option" where
  "nullish a b = (case a of None \<Rightarrow> Some b | Some x \<Rightarrow> Some x)"

text \<open>A value of type \<open>string | null\<close> as a JavaScript value.\<close>

definition js_of :: "string option \<Rightarrow> jsval" where
  "js_of a = (case a of None \<Rightarrow> JNull | Some s \<Rightarrow> JString s)"

text \<open>
  The operator \<open><\<close> on two objects converts each operand with its method
  \<open>valueOf\<close>. For two \<open>Decimal\<close>s both results are strings, and the strings are
  compared.
\<close>

definition less_than :: "('d \<Rightarrow> string) \<Rightarrow> 'd \<Rightarrow> 'd \<Rightarrow> bool" where
  "less_than valueOf x y = string_less (valueOf x) (valueOf y)"

text \<open>The test \<open>balanceIn && amountIn && balanceIn < amountIn\<close>.\<close>

definition insufficient :: "('d \<Rightarrow> string) \<Rightarrow> 'd option \<Rightarrow> 'd option \<Rightarrow> bool" where
  "insufficient valueOf balanceIn amountIn =
     (case balanceIn of
        None \<Rightarrow> False
      | Some b \<Rightarrow> (case amountIn of None \<Rightarrow> False | Some a \<Rightarrow> less_than valueOf b a))"

text \<open>
  The callback of the \<open>useMemo\<close> that computes \<open>inputError\<close>, with the values it closes
  over as arguments. The variable \<open>inputError\<close> is threaded through the six steps.
  Reading \<open>inputCoin.symbol\<close> throws when \<open>inputCoin\<close> is \<open>null\<close>.
\<close>

definition inputError_callback ::
  "address_validator \<Rightarrow> ('d \<Rightarrow> string) \<Rightarrow> string option \<Rightarrow> Coin option \<Rightarrow> Coin option \<Rightarrow>
   'd option \<Rightarrow> string option \<Rightarrow> 'd option \<Rightarrow> 'd TradeResult \<Rightarrow> error + message option" where
  "inputError_callback isAddress valueOf account coinIn coinOut parsed to balanceIn tr =
     (let e0 = None;
          e1 = (if \<not> truthy account then Some Connect_Wallet else e0);
          e2 = (if coinIn = None \<or> coinOut = None then nullish e1 Select_a_coin else e1);
          e3 = (if parsed = None then nullish e2 Enter_an_amount else e2);
          formattedTo = isAddress (js_of to);
          e4 = (if \<not> truthy to \<or> \<not> truthy formattedTo then nullish e3 Enter_a_recipient else e3);
          amountIn = (case trade tr of None \<Rightarrow> None | Some t \<Rightarrow> maximumAmountIn t)
      in case (if insufficient valueOf balanceIn amountIn then
                 (case coinIn of
                    None \<Rightarrow> Inl TypeError
                  | Some c \<Rightarrow> Inr (Some (Insufficient_balance (symbol c))))
               else Inr e4) of
           Inl e \<Rightarrow> Inl e
         | Inr e5 \<Rightarrow>
             Inr (if state tr = NO_ROUTE_FOUND then nullish e5 No_route_found else e5))"

text \<open>
  The hooks that \<open>useDerivedSwapInfo\<close> calls are outside the module; one render sees them
  as the values and functions of this record. \<open>coinBalance\<close> is
  \<open>Utils.d(allCoinBalances[a])\<close> as a function of the key \<open>a\<close>,
  \<open>slippage\<close> is \<open>Utils.d(50).div(10000)\<close>, and \<open>valueOf\<close> is the method of
  that name of the \<open>Decimal\<close>s.
\<close>

record 'd hooks =
  useAccount :: "string option"
  useSwapState :: SwapState
  useCoin :: "string option \<Rightarrow> Coin option"
  tryParseCoinAmount :: "string \<Rightarrow> Coin option \<Rightarrow> 'd option"
  useAnimeSwapTempTrade :: "TradeType \<Rightarrow> 'd option \<Rightarrow> Coin option \<Rightarrow> Coin option \<Rightarrow> 'd TradeResult"
  coinBalance :: "string option \<Rightarrow> 'd option"
  slippage :: 'd
  isAddress_hook :: address_validator
  valueOf :: "'d \<Rightarrow> string"

text \<open>The local constants of \<open>useDerivedSwapInfo\<close>, in the order of the source.\<close>

definition inputCoin :: "'d hooks \<Rightarrow> Coin option" where
  "inputCoin h = useCoin h (currencyId (field_INPUT (useSwapState h)))"

definition outputCoin :: "'d hooks \<Rightarrow> Coin option" where
  "outputCoin h = useCoin h (currencyId (field_OUTPUT (useSwapState h)))"

definition to_address :: "'d hooks \<Rightarrow> string option" where
  "to_address h =
     (case recipient (useSwapState h) of None \<Rightarrow> useAccount h | Some r \<Rightarrow> Some r)"

definition exactIn :: "'d hooks \<Rightarrow> bool" where
  "exactIn h = (independentField (useSwapState h) = INPUT)"

definition parsed_amount :: "'d hooks \<Rightarrow> 'd option" where
  "parsed_amount h =
     tryParseCoinAmount h (typedValue (useSwapState h))
       (if exactIn h then inputCoin h else outputCoin h)"

definition quote :: "'d hooks \<Rightarrow> 'd TradeResult" where
  "quote h =
     useAnimeSwapTempTrade h (if exactIn h then EXACT_INPUT else EXACT_OUTPUT)
       (parsed_amount h) (inputCoin h) (outputCoin h)"

definition balanceIn :: "'d hooks \<Rightarrow> 'd option" where
  "balanceIn h = coinBalance h (map_option address (inputCoin h))"

definition balanceOut :: "'d hooks \<Rightarrow> 'd option" where
  "balanceOut h = coinBalance h (map_option address (outputCoin h))"

definition amountIn :: "'d hooks \<Rightarrow> 'd option" where
  "amountIn h = (case trade (quote h) of None \<Rightarrow> None | Some t \<Rightarrow> maximumAmountIn t)"

record 'd DerivedSwapInfo =
  coins_INPUT :: "Coin option"
  coins_OUTPUT :: "Coin option"
  coinBalances_INPUT :: "'d option"
  coinBalances_OUTPUT :: "'d option"
  isExactIn :: bool
  parsedAmount :: "'d option"
  inputError :: "message option"
  trade_info :: "'d TradeResult"
  allowedSlippage :: 'd

definition useDerivedSwapInfo :: "'d hooks \<Rightarrow> error + 'd DerivedSwapInfo" where
  "useDerivedSwapInfo h =
     (case inputError_callback (isAddress_hook h) (valueOf h) (useAccount h)
             (inputCoin h) (outputCoin h) (parsed_amount h) (to_address h) (balanceIn h) (quote h) of
        Inl e \<Rightarrow> Inl e
      | Inr err \<Rightarrow>
          Inr \<lparr> coins_INPUT = inputCoin h, coins_OUTPUT = outputCoin h,
                coinBalances_INPUT = balanceIn h, coinBalances_OUTPUT = balanceOut h,
                isExactIn = exactIn h, parsedAmount = parsed_amount h, inputError = err,
                trade_info = quote h, allowedSlippage = slippage h \<rparr>)"

text \<open>The field \<open>inputError\<close> of the view model that the hook returns, or the exception
  that the hook throws.\<close>

definition inputError_of :: "'d hooks \<Rightarrow> error + message option" where
  "inputError_of h =
     (case useDerivedSwapInfo h of Inl e \<Rightarrow> Inl e | Inr info \<Rightarrow> Inr (inputError info))"

subsection \<open>Concrete inputs\<close>

text \<open>A parsed query object from its list of keys and values.\<close>

definition query_of :: "(string \<times> jsval) list \<Rightarrow> ParsedQs" where
  "query_of kvs k = (case map_of kvs k of None \<Rightarrow> JUndefined | Some v \<Rightarrow> v)"

text \<open>Two validators: one takes every non-empty string that starts with \<open>0x\<close> for an
  address and returns it unchanged, the other takes nothing.\<close>

definition accept_0x :: address_validator where
  "accept_0x v = (case v of JString s \<Rightarrow> if take 2 s = ''0x'' then Some s else None | _ \<Rightarrow> None)"

definition accept_none :: address_validator where
  "accept_none v = None"

text \<open>
  Whole numbers as \<open>Decimal\<close>s: \<open>valueOf\<close> gives the decimal digits of the number
  (so decimal.js prints a whole number below \<open>10^21\<close>).
\<close>

definition digit_char :: "nat \<Rightarrow> char" where
  "digit_char d = char_of (48 + d)"

fun digits_of :: "nat \<Rightarrow> string" where
  "digits_of n =
     (if n < 10 then [digit_char n] else digits_of (n div 10) @ [digit_char (n mod 10)])"

declare digits_of.simps [simp del]

text \<open>
  A render with whole numbers for \<open>Decimal\<close>s: the store holds the native coin on the
  input side and a second coin on the output side, every coin has the balance
  \<open>bal\<close>, the typed value parses to 1, and the quote, when there is one, needs at most
  \<open>maxIn\<close>.
\<close>

definition apt :: Coin where
  "apt = \<lparr> address = ''0x1::aptos_coin::AptosCoin'', symbol = ''APT'', decimals = 8 \<rparr>"

definition ani :: Coin where
  "ani = \<lparr> address = ''0x16fe::AnimeCoin::ANI'', symbol = ''ANI'', decimals = 8 \<rparr>"

definition render ::
  "string option \<Rightarrow> string option \<Rightarrow> nat \<Rightarrow> nat option \<Rightarrow> TradeState \<Rightarrow> nat hooks" where
  "render account rcpt bal maxIn ts =
     \<lparr> useAccount = account,
       useSwapState =
         \<lparr> field_INPUT = \<lparr> currencyId = Some (address apt) \<rparr>,
           field_OUTPUT = \<lparr> currencyId = Some (address ani) \<rparr>,
           typedValue = ''1'', independentField = INPUT, recipient = rcpt \<rparr>,
       useCoin = (\<lambda>a. if a = Some (address apt) then Some apt
                        else if a = Some (address ani) then Some ani else None),
       tryParseCoinAmount = (\<lambda>v c. if v = ''1'' \<and> c \<noteq> None then Some 1 else None),
       useAnimeSwapTempTrade =
         (\<lambda>ty amt ci co.
            \<lparr> state = ts,
              trade = (case maxIn of None \<Rightarrow> None
                       | Some m \<Rightarrow> Some \<lparr> maximumAmountIn = Some m \<rparr>) \<rparr>),
       coinBalance = (\<lambda>a. Some bal),
       slippage = 0,
       isAddress_hook = accept_0x,
       valueOf = digits_of \<rparr>"

subsection \<open>Notions of the specification\<close>

text \<open>
  Equality of two strings ignoring case, as the specification uses it for the parameter
  \<open>exactField\<close>: the strings have the same length and, position by position, the same
  character or the same letter A to Z in the two cases.
\<close>

definition same_letter :: "char \<Rightarrow> char \<Rightarrow> bool" where
  "same_letter a b =
     (a = b \<or> (is_upper a \<and> is_lower b \<and> (of_char b :: nat) = of_char a + 32)
            \<or> (is_lower a \<and> is_upper b \<and> (of_char a :: nat) = of_char b + 32))"

definition equals_ignoring_case :: "string \<Rightarrow> string \<Rightarrow> bool" where
  "equals_ignoring_case s t = list_all2 same_letter s t"

text \<open>
  "Parses as a finite decimal number", in the widest reading: \<open>parseFloat\<close> finds a
  numeric literal at the start of the string, and the literal is not an infinity.
\<close>

definition parses_as_finite_decimal :: "string \<Rightarrow> bool" where
  "parses_as_finite_decimal s =
     (case StrDecimalLiteral (dropWhile is_space s) of
        None \<Rightarrow> False
      | Some lit \<Rightarrow> lit \<noteq> ''Infinity'' \<and> lit \<noteq> ''+Infinity'' \<and> lit \<noteq> ''-Infinity'')"

text \<open>
  The start of a string that \<open>parseFloat\<close> needs for a number: after white space and an
  optional sign comes a digit, a dot with a digit, or the word \<open>Infinity\<close>.
\<close>

definition unsigned_start :: "string \<Rightarrow> bool" where
  "unsigned_start u =
     (take 8 u = ''Infinity'' \<or>
      (case u of
         [] \<Rightarrow> False
       | c # r \<Rightarrow> is_digit c \<or> (c = CHR ''.'' \<and> (case r of [] \<Rightarrow> False | d # _ \<Rightarrow> is_digit d))))"

definition numeric_start :: "string \<Rightarrow> bool" where
  "numeric_start s =
     (case dropWhile is_space s of
        [] \<Rightarrow> False
      | g # r \<Rightarrow> if g = CHR ''+'' \<or> g = CHR ''-'' then unsigned_start r else unsigned_start (g # r))"

section \<open>Properties\<close>

subsection \<open>Auxiliary facts\<close>

lemma toLowerChar_eq_lower:
  assumes "is_lower l"
  shows "toLowerChar c = l \<longleftrightarrow> same_letter c l"
proof -
  have b: "(of_char c :: nat) < 256" by simp
  have e: "c = l \<longleftrightarrow> (of_char c :: nat) = of_char l" by simp
  show ?thesis
    using assms b unfolding toLowerChar_def same_letter_def is_lower_def is_upper_def Let_def e
    by (auto simp add: char_of_eq_iff take_bit_eq_mod simp del: of_char_eq_iff intro: of_char_eqI)
qed

lemma map_toLowerChar_eq:
  "list_all is_lower t \<Longrightarrow> map toLowerChar s = t \<longleftrightarrow> equals_ignoring_case s t"
  unfolding equals_ignoring_case_def
proof (induction s arbitrary: t)
  case Nil
  then show ?case by auto
next
  case (Cons c s)
  then show ?case by (cases t) (auto simp add: toLowerChar_eq_lower)
qed

lemma lower_output: "list_all is_lower ''output''"
  by (simp add: is_lower_def)

lemma typeof_string_iff: "typeof v = ''string'' \<longleftrightarrow> (\<exists>s. v = JString s)"
  by (cases v) simp_all

lemma parseIndependentField_Inr:
  "parseIndependentFieldURLParameter v =
     Inr (if (\<exists>s. v = JString s \<and> equals_ignoring_case s ''output'') then OUTPUT else INPUT)"
  by (cases v) (simp_all add: parseIndependentFieldURLParameter_def map_toLowerChar_eq [OF lower_output])

text \<open>The state that the parser returns, field by field.\<close>

lemma queryParametersToSwapState_Inr:
  "\<exists>st. queryParametersToSwapState isAddress q = Inr st
     \<and> typedValue st = parseTokenAmountURLParameter (q ''exactAmount'')
     \<and> parseIndependentFieldURLParameter (q ''exactField'') = Inr (independentField st)
     \<and> recipient st = validatedRecipient isAddress (q ''recipient'')"
  by (simp add: queryParametersToSwapState_def parseIndependentField_Inr Let_def split: prod.split)

lemma StrUnsigned_None_iff:
  "StrUnsignedDecimalLiteral u = None \<longleftrightarrow> \<not> unsigned_start u"
  unfolding StrUnsignedDecimalLiteral_def unsigned_start_def
  by (cases u) (auto simp add: Let_def takeWhile_eq_Nil_iff split: list.splits)

lemma StrDecimalLiteral_None_iff:
  "StrDecimalLiteral t = None \<longleftrightarrow>
     \<not> (case t of [] \<Rightarrow> False
         | g # r \<Rightarrow> if g = CHR ''+'' \<or> g = CHR ''-'' then unsigned_start r else unsigned_start (g # r))"
  unfolding StrDecimalLiteral_def
  by (cases t) (simp_all add: StrUnsigned_None_iff)

lemma isNaN_parseFloat_iff: "isNaN_parseFloat s \<longleftrightarrow> \<not> numeric_start s"
  unfolding isNaN_parseFloat_def numeric_start_def
  by (rule StrDecimalLiteral_None_iff)

lemma finite_decimal_numeric_start: "parses_as_finite_decimal s \<Longrightarrow> numeric_start s"
  using isNaN_parseFloat_iff [of s]
  by (auto simp add: parses_as_finite_decimal_def isNaN_parseFloat_def split: option.splits)

lemma parseCurrency_cases:
  "parseCurrencyFromURLParameter isAddress v =
     (case v of
        JString s \<Rightarrow> (case isAddress (JString s) of None \<Rightarrow> [] | Some a \<Rightarrow> a)
      | _ \<Rightarrow> [])"
  by (cases v) (auto simp add: parseCurrencyFromURLParameter_def truthy_def Let_def split: option.splits)

lemmas query_simps =
  query_of_def accept_none_def accept_0x_def parseCurrency_cases
  parseTokenAmountURLParameter_def validatedRecipient_def truthy_def

lemma inputError_of_callback:
  "inputError_of h =
     inputError_callback (isAddress_hook h) (valueOf h) (useAccount h)
       (inputCoin h) (outputCoin h) (parsed_amount h) (to_address h) (balanceIn h) (quote h)"
  by (simp add: inputError_of_def useDerivedSwapInfo_def split: sum.split)



text \<open>
  The order of two digit strings of the same length is the order of the numbers; for
  different lengths it is not (\<open>7\<close> against \<open>50\<close>).
\<close>

lemma digits_examples:
  "digits_of 0 = ''0''" "digits_of 1 = ''1''" "digits_of 5 = ''5''" "digits_of 7 = ''7''"
  "digits_of 10 = ''10''" "digits_of 50 = ''50''"
  by code_simp+











lemmas render_simps =
  render_def inputCoin_def outputCoin_def balanceIn_def amountIn_def quote_def
  parsed_amount_def exactIn_def to_address_def apt_def ani_def accept_0x_def truthy_def js_of_def
  insufficient_def less_than_def digits_examples

text \<open>The two regular expressions on some strings.\<close>

lemma ens_examples:
  "ENS_NAME_REGEX_test ''vitalik.eth''" "\<not> ENS_NAME_REGEX_test ''nobody''"
  "\<not> ENS_NAME_REGEX_test ''a.b_c''" "ENS_NAME_REGEX_test ''a.b)''"
  "\<not> ENS_NAME_REGEX_test ''vitalik.ethereum''" "ENS_NAME_REGEX_test ''x.io/path?q=1''"
  "\<not> ENS_NAME_REGEX_test ''!!''"
  by code_simp+

lemma address_examples:
  "\<not> ADDRESS_REGEX_test ''vitalik.eth''" "\<not> ADDRESS_REGEX_test ''nobody''"
  "ADDRESS_REGEX_test ''0x00000000000000000000000000000000000000A1''"
  "\<not> ADDRESS_REGEX_test ''!!''"
  by code_simp+

subsection \<open>The input error of the derived swap information\<close>

text \<open>
  C1. The claim reads: whenever a quote exists whose \<open>maximumAmountIn\<close> exceeds the input
  balance, the input error is the insufficient-balance message. The code compares the two
  \<open>Decimal\<close>s with the operator \<open><\<close>, that is, their strings: at a render with a
  connected account, both coins, a parsed amount, a valid recipient, the balance 7 and the
  maximum 50, the balance is below the maximum and the hook returns no input error, since
  the string \<open>7\<close> is not below the string \<open>50\<close>.
\<close>

theorem balance_7_maximum_50_no_error:
  "truthy (useAccount (render (Some ''0xa11ce'') None 7 (Some 50) VALID))
   \<and> inputCoin (render (Some ''0xa11ce'') None 7 (Some 50) VALID) = Some apt
   \<and> outputCoin (render (Some ''0xa11ce'') None 7 (Some 50) VALID) = Some ani
   \<and> parsed_amount (render (Some ''0xa11ce'') None 7 (Some 50) VALID) = Some 1
   \<and> truthy (accept_0x (js_of (to_address (render (Some ''0xa11ce'') None 7 (Some 50) VALID))))
   \<and> balanceIn (render (Some ''0xa11ce'') None 7 (Some 50) VALID) = Some 7
   \<and> amountIn (render (Some ''0xa11ce'') None 7 (Some 50) VALID) = Some 50
   \<and> (7::nat) < 50
   \<and> inputError_of (render (Some ''0xa11ce'') None 7 (Some 50) VALID) = Inr None"
  by (simp add: inputError_of_callback inputError_callback_def Let_def nullish_def render_simps)




text \<open>
  C10. The claim reads: the input error is \<open>undefined\<close> exactly when an account is
  connected, both coins are resolved, the typed value parses to an amount, the recipient is
  a valid address, it is not the case that balance and maximum are both there with the
  balance below the maximum, and the trade state is not NO_ROUTE_FOUND. The code compares
  the two \<open>Decimal\<close>s as strings: at a render where all of this holds, with the balance 10
  and the maximum 5, the hook returns the insufficient-balance message, since the string
  \<open>10\<close> is below the string \<open>5\<close>.
\<close>

theorem balance_10_maximum_5_insufficient:
  "truthy (useAccount (render (Some ''0xa11ce'') None 10 (Some 5) VALID))
   \<and> inputCoin (render (Some ''0xa11ce'') None 10 (Some 5) VALID) = Some apt
   \<and> outputCoin (render (Some ''0xa11ce'') None 10 (Some 5) VALID) = Some ani
   \<and> parsed_amount (render (Some ''0xa11ce'') None 10 (Some 5) VALID) = Some 1
   \<and> truthy (to_address (render (Some ''0xa11ce'') None 10 (Some 5) VALID))
   \<and> truthy (accept_0x (js_of (to_address (render (Some ''0xa11ce'') None 10 (Some 5) VALID))))
   \<and> balanceIn (render (Some ''0xa11ce'') None 10 (Some 5) VALID) = Some 10
   \<and> amountIn (render (Some ''0xa11ce'') None 10 (Some 5) VALID) = Some 5
   \<and> \<not> (10::nat) < 5
   \<and> state (quote (render (Some ''0xa11ce'') None 10 (Some 5) VALID)) \<noteq> NO_ROUTE_FOUND
   \<and> inputError_of (render (Some ''0xa11ce'') None 10 (Some 5) VALID)
       = Inr (Some (Insufficient_balance ''APT''))"
  by (simp add: inputError_of_callback inputError_callback_def Let_def nullish_def render_simps)

subsection \<open>The parser of the query parameters\<close>

text \<open>
  C3. The empty query object gives the state with the native asset on the input side, no
  output currency, the empty typed value, INPUT as the independent field and no recipient.
  More generally, whenever the two parsed currencies and the parsed amount are empty and the
  parsed field is INPUT, the input currency of the result is the native asset.
\<close>

theorem queryParametersToSwapState_defaults:
  "queryParametersToSwapState isAddress (query_of []) =
     Inr \<lparr> field_INPUT = \<lparr> currencyId = Some ''0x1::aptos_coin::AptosCoin'' \<rparr>,
           field_OUTPUT = \<lparr> currencyId = None \<rparr>,
           typedValue = [], independentField = INPUT, recipient = None \<rparr>
   \<and> (parseCurrencyFromURLParameter isAddress (q ''inputCurrency'') = []
        \<and> parseCurrencyFromURLParameter isAddress (q ''outputCurrency'') = []
        \<and> parseTokenAmountURLParameter (q ''exactAmount'') = []
        \<and> parseIndependentFieldURLParameter (q ''exactField'') = Inr INPUT
      \<longrightarrow> (\<exists>st. queryParametersToSwapState isAddress q = Inr st
             \<and> currencyId (field_INPUT st) = Some ''0x1::aptos_coin::AptosCoin''
             \<and> currencyId (field_OUTPUT st) = None
             \<and> typedValue st = [] \<and> independentField st = INPUT))"
proof (intro conjI impI)
  show "queryParametersToSwapState isAddress (query_of []) =
     Inr \<lparr> field_INPUT = \<lparr> currencyId = Some ''0x1::aptos_coin::AptosCoin'' \<rparr>,
           field_OUTPUT = \<lparr> currencyId = None \<rparr>,
           typedValue = [], independentField = INPUT, recipient = None \<rparr>"
    by (simp add: queryParametersToSwapState_def parseIndependentField_Inr query_simps)
next
  assume "parseCurrencyFromURLParameter isAddress (q ''inputCurrency'') = []
        \<and> parseCurrencyFromURLParameter isAddress (q ''outputCurrency'') = []
        \<and> parseTokenAmountURLParameter (q ''exactAmount'') = []
        \<and> parseIndependentFieldURLParameter (q ''exactField'') = Inr INPUT"
  then show "\<exists>st. queryParametersToSwapState isAddress q = Inr st
             \<and> currencyId (field_INPUT st) = Some ''0x1::aptos_coin::AptosCoin''
             \<and> currencyId (field_OUTPUT st) = None
             \<and> typedValue st = [] \<and> independentField st = INPUT"
    by (simp add: queryParametersToSwapState_def)
qed

theorem queryParametersToSwapState_defaults_witness:
  "parseCurrencyFromURLParameter accept_0x
      (query_of [(''inputCurrency'', JString ''apt''), (''exactAmount'', JString ''much''),
                 (''exactField'', JString ''input'')] ''inputCurrency'') = []
   \<and> parseTokenAmountURLParameter
      (query_of [(''inputCurrency'', JString ''apt''), (''exactAmount'', JString ''much''),
                 (''exactField'', JString ''input'')] ''exactAmount'') = []
   \<and> queryParametersToSwapState accept_0x
      (query_of [(''inputCurrency'', JString ''apt''), (''exactAmount'', JString ''much''),
                 (''exactField'', JString ''input'')]) =
     Inr \<lparr> field_INPUT = \<lparr> currencyId = Some ''0x1::aptos_coin::AptosCoin'' \<rparr>,
           field_OUTPUT = \<lparr> currencyId = None \<rparr>,
           typedValue = [], independentField = INPUT, recipient = None \<rparr>"
  using queryParametersToSwapState_defaults [of accept_0x
      "query_of [(''inputCurrency'', JString ''apt''), (''exactAmount'', JString ''much''),
                 (''exactField'', JString ''input'')]"]
  by (simp add: queryParametersToSwapState_def parseIndependentFieldURLParameter_def toLowerChar_def
        query_simps isNaN_parseFloat_def StrDecimalLiteral_def StrUnsignedDecimalLiteral_def
        is_space_def is_digit_def)

text \<open>
  C4. When the parameters \<open>inputCurrency\<close> and \<open>outputCurrency\<close> are strings that the
  validator resolves to the same non-empty address, the result has no output currency and
  keeps the address as input currency.
\<close>

theorem identical_currencies_clear_output:
  assumes "q ''inputCurrency'' = JString s1" and "q ''outputCurrency'' = JString s2"
    and "isAddress (JString s1) = Some a" and "isAddress (JString s2) = Some a" and "a \<noteq> []"
  shows "\<exists>st. queryParametersToSwapState isAddress q = Inr st
           \<and> currencyId (field_INPUT st) = Some a \<and> currencyId (field_OUTPUT st) = None"
  using assms
  by (simp add: queryParametersToSwapState_def parseIndependentField_Inr parseCurrency_cases Let_def)

theorem identical_currencies_clear_output_witness:
  "query_of [(''inputCurrency'', JString ''0x1::aptos_coin::AptosCoin''),
             (''outputCurrency'', JString ''0x1::aptos_coin::AptosCoin'')] ''inputCurrency''
     = JString ''0x1::aptos_coin::AptosCoin''
   \<and> accept_0x (JString ''0x1::aptos_coin::AptosCoin'') = Some ''0x1::aptos_coin::AptosCoin''
   \<and> queryParametersToSwapState accept_0x
       (query_of [(''inputCurrency'', JString ''0x1::aptos_coin::AptosCoin''),
                  (''outputCurrency'', JString ''0x1::aptos_coin::AptosCoin'')]) =
     Inr \<lparr> field_INPUT = \<lparr> currencyId = Some ''0x1::aptos_coin::AptosCoin'' \<rparr>,
           field_OUTPUT = \<lparr> currencyId = None \<rparr>,
           typedValue = [], independentField = INPUT, recipient = None \<rparr>"
  using identical_currencies_clear_output [of
      "query_of [(''inputCurrency'', JString ''0x1::aptos_coin::AptosCoin''),
                 (''outputCurrency'', JString ''0x1::aptos_coin::AptosCoin'')]"
      "''0x1::aptos_coin::AptosCoin''" "''0x1::aptos_coin::AptosCoin''" accept_0x
      "''0x1::aptos_coin::AptosCoin''"]
  by (simp add: queryParametersToSwapState_def parseIndependentFieldURLParameter_def query_simps)

text \<open>
  C5. The recipient of the result is not \<open>null\<close> exactly when the parameter
  \<open>recipient\<close> is a string that the address validator takes, or that matches
  \<open>ENS_NAME_REGEX\<close>, or that matches \<open>ADDRESS_REGEX\<close>.
\<close>

theorem recipient_accepted_iff:
  "\<exists>st. queryParametersToSwapState isAddress q = Inr st
     \<and> (recipient st \<noteq> None \<longleftrightarrow>
          (\<exists>s. q ''recipient'' = JString s
              \<and> (truthy (isAddress (JString s)) \<or> ENS_NAME_REGEX_test s \<or> ADDRESS_REGEX_test s)))"
proof -
  obtain st where st: "queryParametersToSwapState isAddress q = Inr st"
    and r: "recipient st = validatedRecipient isAddress (q ''recipient'')"
    using queryParametersToSwapState_Inr [of isAddress q] by blast
  have "validatedRecipient isAddress v \<noteq> None \<longleftrightarrow>
          (\<exists>s. v = JString s
              \<and> (truthy (isAddress (JString s)) \<or> ENS_NAME_REGEX_test s \<or> ADDRESS_REGEX_test s))" for v
    by (cases v) (auto simp add: validatedRecipient_def Let_def truthy_def split: option.splits)
  with st r show ?thesis by simp
qed

theorem recipient_accepted_iff_witness:
  "queryParametersToSwapState accept_none (query_of [(''recipient'', JString ''vitalik.eth'')]) =
     Inr \<lparr> field_INPUT = \<lparr> currencyId = Some ''0x1::aptos_coin::AptosCoin'' \<rparr>,
           field_OUTPUT = \<lparr> currencyId = None \<rparr>,
           typedValue = [], independentField = INPUT, recipient = Some ''vitalik.eth'' \<rparr>
   \<and> queryParametersToSwapState accept_none (query_of [(''recipient'', JString ''nobody'')]) =
     Inr \<lparr> field_INPUT = \<lparr> currencyId = Some ''0x1::aptos_coin::AptosCoin'' \<rparr>,
           field_OUTPUT = \<lparr> currencyId = None \<rparr>,
           typedValue = [], independentField = INPUT, recipient = None \<rparr>"
  using recipient_accepted_iff [of accept_none "query_of [(''recipient'', JString ''vitalik.eth'')]"]
    recipient_accepted_iff [of accept_none "query_of [(''recipient'', JString ''nobody'')]"]
  by (simp add: queryParametersToSwapState_def parseIndependentFieldURLParameter_def query_simps
        ens_examples address_examples)

text \<open>
  C6. The claim reads: the typed value of the result is the parameter \<open>exactAmount\<close>
  exactly when that string parses as a finite decimal number. It fails at the string
  \<open>Infinity\<close>, which is kept although no finite number is parsed from it.
\<close>

theorem typedValue_Infinity_counterexample:
  "queryParametersToSwapState accept_none (query_of [(''exactAmount'', JString ''Infinity'')]) =
     Inr \<lparr> field_INPUT = \<lparr> currencyId = None \<rparr>, field_OUTPUT = \<lparr> currencyId = None \<rparr>,
           typedValue = ''Infinity'', independentField = INPUT, recipient = None \<rparr>
   \<and> \<not> parses_as_finite_decimal ''Infinity''"
  by (simp add: queryParametersToSwapState_def parseIndependentFieldURLParameter_def query_simps
        isNaN_parseFloat_def parses_as_finite_decimal_def StrDecimalLiteral_def
        StrUnsignedDecimalLiteral_def is_space_def ENS_NAME_REGEX_test_def ADDRESS_REGEX_test_def)

text \<open>
  C6, as amended. The typed value of the result is the parameter \<open>exactAmount\<close> when
  that is a string from which \<open>parseFloat\<close> reads a number, that is, one that after
  leading white space and an optional sign starts with a digit, with a dot and a digit, or
  with \<open>Infinity\<close>; it is the empty string for every other string and for every value
  that is not a string. Every string that parses as a finite decimal number is kept.
\<close>

theorem typedValue_kept_iff_numeric_start:
  "\<exists>st. queryParametersToSwapState isAddress q = Inr st
     \<and> typedValue st =
         (case q ''exactAmount'' of
            JString s \<Rightarrow> if numeric_start s then s else []
          | _ \<Rightarrow> [])
     \<and> (\<forall>s. q ''exactAmount'' = JString s \<and> parses_as_finite_decimal s \<longrightarrow> typedValue st = s)"
proof -
  obtain st where st: "queryParametersToSwapState isAddress q = Inr st"
    and t: "typedValue st = parseTokenAmountURLParameter (q ''exactAmount'')"
    using queryParametersToSwapState_Inr [of isAddress q] by blast
  have "parseTokenAmountURLParameter v =
          (case v of JString s \<Rightarrow> if numeric_start s then s else [] | _ \<Rightarrow> [])" for v
    by (cases v) (simp_all add: parseTokenAmountURLParameter_def isNaN_parseFloat_iff)
  with st t show ?thesis
    by (auto dest: finite_decimal_numeric_start)
qed

theorem typedValue_kept_iff_numeric_start_witness:
  "parses_as_finite_decimal ''12.5''
   \<and> queryParametersToSwapState accept_none (query_of [(''exactAmount'', JString ''12.5'')]) =
     Inr \<lparr> field_INPUT = \<lparr> currencyId = None \<rparr>, field_OUTPUT = \<lparr> currencyId = None \<rparr>,
           typedValue = ''12.5'', independentField = INPUT, recipient = None \<rparr>"
  using typedValue_kept_iff_numeric_start [of accept_none "query_of [(''exactAmount'', JString ''12.5'')]"]
  by (simp add: queryParametersToSwapState_def parseIndependentFieldURLParameter_def query_simps
        isNaN_parseFloat_def parses_as_finite_decimal_def StrDecimalLiteral_def
        StrUnsignedDecimalLiteral_def ExponentPart_def is_space_def is_digit_def
        ENS_NAME_REGEX_test_def ADDRESS_REGEX_test_def)

text \<open>
  C7. The independent field of the result is OUTPUT exactly when the parameter
  \<open>exactField\<close> is a string equal to \<open>output\<close> ignoring case, and INPUT for every
  other value.
\<close>

theorem independentField_output_iff:
  "\<exists>st. queryParametersToSwapState isAddress q = Inr st
     \<and> (independentField st = OUTPUT \<longleftrightarrow>
          (\<exists>s. q ''exactField'' = JString s \<and> equals_ignoring_case s ''output''))
     \<and> (independentField st = INPUT \<longleftrightarrow>
          \<not> (\<exists>s. q ''exactField'' = JString s \<and> equals_ignoring_case s ''output''))"
proof -
  obtain st where st: "queryParametersToSwapState isAddress q = Inr st"
    and f: "parseIndependentFieldURLParameter (q ''exactField'') = Inr (independentField st)"
    using queryParametersToSwapState_Inr [of isAddress q] by blast
  from f show ?thesis
    unfolding st parseIndependentField_Inr by (auto split: if_splits)
qed

theorem independentField_output_iff_witness:
  "equals_ignoring_case ''OutPut'' ''output''
   \<and> queryParametersToSwapState accept_none (query_of [(''exactField'', JString ''OutPut'')]) =
     Inr \<lparr> field_INPUT = \<lparr> currencyId = None \<rparr>, field_OUTPUT = \<lparr> currencyId = None \<rparr>,
           typedValue = [], independentField = OUTPUT, recipient = None \<rparr>
   \<and> queryParametersToSwapState accept_none (query_of [(''exactField'', JString ''outputs'')]) =
     Inr \<lparr> field_INPUT = \<lparr> currencyId = Some ''0x1::aptos_coin::AptosCoin'' \<rparr>,
           field_OUTPUT = \<lparr> currencyId = None \<rparr>,
           typedValue = [], independentField = INPUT, recipient = None \<rparr>"
  using independentField_output_iff [of accept_none "query_of [(''exactField'', JString ''OutPut'')]"]
    independentField_output_iff [of accept_none "query_of [(''exactField'', JString ''outputs'')]"]
  by (simp add: queryParametersToSwapState_def parseIndependentFieldURLParameter_def query_simps
        toLowerChar_def equals_ignoring_case_def same_letter_def is_upper_def is_lower_def
        char_of_eq_iff take_bit_eq_mod)



subsection \<open>The action handlers\<close>

text \<open>
  C9. Two calls of \<open>onSwitchTokens\<close> in a row give back the currencies of the input and
  of the output side and the independent field of the state before; one call exchanges the
  two sides and changes the independent field.
\<close>

theorem onSwitchTokens_involution:
  "field_INPUT (onSwitchTokens (onSwitchTokens st)) = field_INPUT st
   \<and> field_OUTPUT (onSwitchTokens (onSwitchTokens st)) = field_OUTPUT st
   \<and> independentField (onSwitchTokens (onSwitchTokens st)) = independentField st
   \<and> field_INPUT (onSwitchTokens st) = field_OUTPUT st
   \<and> field_OUTPUT (onSwitchTokens st) = field_INPUT st
   \<and> independentField (onSwitchTokens st) \<noteq> independentField st"
  by (cases "independentField st") (simp_all add: onSwitchTokens_def dispatch_def)

theorem onSwitchTokens_involution_witness:
  "onSwitchTokens
     \<lparr> field_INPUT = \<lparr> currencyId = Some (address apt) \<rparr>,
       field_OUTPUT = \<lparr> currencyId = Some (address ani) \<rparr>,
       typedValue = ''1'', independentField = INPUT, recipient = None \<rparr> =
     \<lparr> field_INPUT = \<lparr> currencyId = Some (address ani) \<rparr>,
       field_OUTPUT = \<lparr> currencyId = Some (address apt) \<rparr>,
       typedValue = ''1'', independentField = OUTPUT, recipient = None \<rparr>
   \<and> onSwitchTokens (onSwitchTokens
     \<lparr> field_INPUT = \<lparr> currencyId = Some (address apt) \<rparr>,
       field_OUTPUT = \<lparr> currencyId = Some (address ani) \<rparr>,
       typedValue = ''1'', independentField = INPUT, recipient = None \<rparr>) =
     \<lparr> field_INPUT = \<lparr> currencyId = Some (address apt) \<rparr>,
       field_OUTPUT = \<lparr> currencyId = Some (address ani) \<rparr>,
       typedValue = ''1'', independentField = INPUT, recipient = None \<rparr>"
  using onSwitchTokens_involution [of
     "\<lparr> field_INPUT = \<lparr> currencyId = Some (address apt) \<rparr>,
       field_OUTPUT = \<lparr> currencyId = Some (address ani) \<rparr>,
       typedValue = ''1'', independentField = INPUT, recipient = None \<rparr>"]
  by (simp add: onSwitchTokens_def dispatch_def)

end
